theory Spec2Isabelle
  imports Main "HOL-Library.Word"
begin

unbundle bit_operations_syntax

section \<open>Result codes, handles and versions\<close>

text \<open>
  \<open>XrResult\<close> is a signed enumeration; the loader only compares it with zero and
  assigns named codes. The numeric values are those of the OpenXR API header.
\<close>

type_synonym XrResult = int

definition XR_SUCCESS :: XrResult where
  "XR_SUCCESS = 0"

definition XR_ERROR_RUNTIME_FAILURE :: XrResult where
  "XR_ERROR_RUNTIME_FAILURE = - 2"

definition XR_ERROR_INITIALIZATION_FAILED :: XrResult where
  "XR_ERROR_INITIALIZATION_FAILED = - 6"

definition XR_ERROR_INSTANCE_LOST :: XrResult where
  "XR_ERROR_INSTANCE_LOST = - 13"

definition XR_ERROR_FILE_ACCESS_ERROR :: XrResult where
  "XR_ERROR_FILE_ACCESS_ERROR = - 32"

definition XR_ERROR_FILE_CONTENTS_INVALID :: XrResult where
  "XR_ERROR_FILE_CONTENTS_INVALID = - 33"

definition XR_SUCCEEDED :: "XrResult \<Rightarrow> bool" where
  "XR_SUCCEEDED result = (result \<ge> 0)"

definition XR_FAILED :: "XrResult \<Rightarrow> bool" where
  "XR_FAILED result = (result < 0)"

text \<open>Handles are opaque 64-bit values; the null handle is zero.\<close>

type_synonym XrInstance = "64 word"
type_synonym XrDebugUtilsMessengerEXT = "64 word"
type_synonym XrVersion = "64 word"

definition XR_NULL_HANDLE :: "64 word" where
  "XR_NULL_HANDLE = 0"

text \<open>
  Modelled from the spec: the version macros of the OpenXR API header, which is not part
  of the sources at hand. A version is "major.minor.patch packed": the major number in
  the top 16 bits, the minor number in the next 16 bits, the patch number in the low 32.
\<close>

definition XR_MAKE_VERSION :: "64 word \<Rightarrow> 64 word \<Rightarrow> 64 word \<Rightarrow> XrVersion" where
  "XR_MAKE_VERSION major minor patch =
     (push_bit 48 (major AND 0xffff)) OR (push_bit 32 (minor AND 0xffff)) OR (patch AND 0xffffffff)"

definition XR_VERSION_MAJOR :: "XrVersion \<Rightarrow> 32 word" where
  "XR_VERSION_MAJOR version = ucast (drop_bit 48 version AND 0xffff)"

definition XR_VERSION_MINOR :: "XrVersion \<Rightarrow> 32 word" where
  "XR_VERSION_MINOR version = ucast (drop_bit 32 version AND 0xffff)"

section \<open>Records exchanged with a runtime\<close>

record XrExtensionProperties =
  extensionName :: string
  extensionVersion :: "32 word"

text \<open>
  The entry-point getter a runtime hands back. The loader uses it to resolve the
  runtime's functions; what is kept of it here is the extension list that the resolved
  \<open>xrEnumerateInstanceExtensionProperties\<close> reports through the count-then-fill
  convention.
\<close>

datatype PFN_xrGetInstanceProcAddr =
  GetInstanceProcAddr (rt_xrEnumerateInstanceExtensionProperties: "XrExtensionProperties list")

record negotiate_header =
  structType :: nat
  structVersion :: nat
  structSize :: nat

record XrNegotiateLoaderInfo = negotiate_header +
  minInterfaceVersion :: "32 word"
  maxInterfaceVersion :: "32 word"
  minApiVersion :: XrVersion
  maxApiVersion :: XrVersion

record XrNegotiateRuntimeRequest = negotiate_header +
  runtimeInterfaceVersion :: "32 word"
  runtimeApiVersion :: XrVersion
  getInstanceProcAddr :: "PFN_xrGetInstanceProcAddr option"

type_synonym PFN_xrNegotiateLoaderRuntimeInterface =
  "XrNegotiateLoaderInfo \<Rightarrow> XrNegotiateRuntimeRequest \<Rightarrow> XrResult \<times> XrNegotiateRuntimeRequest"

text \<open>
  The pre-negotiation init entry point of a runtime is always invoked with the same
  process-wide payload, so it is represented by the result of that invocation.
\<close>

type_synonym PFN_xrInitializeLoaderKHR = XrResult

section \<open>Collaborators\<close>

type_synonym LoaderPlatformLibraryHandle = nat

text \<open>
  Modelled from the spec: a manifest descriptor carries a library path and an optional
  table of function-name overrides; \<open>GetFunctionName\<close> yields the override of a name when
  there is one and the name itself otherwise. The manifest class is not part of the
  sources at hand.
\<close>

record RuntimeManifestFile =
  Filename :: string
  LibraryPath :: string
  functions_renamed :: "string \<rightharpoonup> string"

definition GetFunctionName :: "RuntimeManifestFile \<Rightarrow> string \<Rightarrow> string" where
  "GetFunctionName manifest_file func_name =
     (case functions_renamed manifest_file func_name of
        None \<Rightarrow> func_name
      | Some renamed \<Rightarrow> renamed)"

text \<open>
  Everything the loader consumes from outside: the build configuration
  (\<open>XR_KHR_LOADER_INIT_SUPPORT\<close>), the constants of the loader interface header, the
  manifest source, and the platform library primitives. Symbol resolution is given once
  per function-pointer type the loader casts the resolved address to.
\<close>

record platform =
  XR_KHR_LOADER_INIT_SUPPORT :: bool
  initialized :: bool
  XR_CURRENT_LOADER_RUNTIME_VERSION :: "32 word"
  XR_CURRENT_API_VERSION :: XrVersion
  XR_LOADER_INTERFACE_STRUCT_LOADER_INFO :: nat
  XR_LOADER_INFO_STRUCT_VERSION :: nat
  sizeof_XrNegotiateLoaderInfo :: nat
  XR_LOADER_INTERFACE_STRUCT_RUNTIME_REQUEST :: nat
  XR_RUNTIME_INFO_STRUCT_VERSION :: nat
  sizeof_XrNegotiateRuntimeRequest :: nat
  FindManifestFiles :: "XrResult \<times> RuntimeManifestFile list"
  LoaderPlatformLibraryOpen :: "string \<Rightarrow> LoaderPlatformLibraryHandle option"
  GetProcAddr_initialize ::
    "LoaderPlatformLibraryHandle \<Rightarrow> string \<Rightarrow> PFN_xrInitializeLoaderKHR option"
  GetProcAddr_negotiate ::
    "LoaderPlatformLibraryHandle \<Rightarrow> string \<Rightarrow> PFN_xrNegotiateLoaderRuntimeInterface option"

text \<open>
  The calls made on the collaborators, in order. Logging is fire-and-forget and leaves
  no trace here.
\<close>

datatype call =
  FindManifestFiles_called
  | LibraryOpen_called string
  | LibraryClose_called LoaderPlatformLibraryHandle
  | xrInitializeLoaderKHR_called LoaderPlatformLibraryHandle
  | xrNegotiateLoaderRuntimeInterface_called LoaderPlatformLibraryHandle
  | xrEnumerateInstanceExtensionProperties_called
  | xrCreateInstance_called
  | xrDestroyInstance_called XrInstance

section \<open>The runtime session\<close>

text \<open>The generated dispatch table: the resolved entry points, by name.\<close>

type_synonym XrGeneratedDispatchTable = "(string \<times> nat) list"

text \<open>The private members \<open>_name\<close> of the class are the fields \<open>m_name\<close>.\<close>

record RuntimeInterface =
  m_runtime_library :: LoaderPlatformLibraryHandle
  m_get_instance_proc_addr :: PFN_xrGetInstanceProcAddr
  m_supported_extensions :: "string list"
  m_dispatch_table_map :: "XrInstance \<rightharpoonup> XrGeneratedDispatchTable"
  m_messenger_to_instance_map :: "XrDebugUtilsMessengerEXT \<rightharpoonup> XrInstance"

text \<open>The constructor: both containers start empty, no extension is known yet.\<close>

definition new_RuntimeInterface ::
  "LoaderPlatformLibraryHandle \<Rightarrow> PFN_xrGetInstanceProcAddr \<Rightarrow> RuntimeInterface" where
  "new_RuntimeInterface lib gipa =
     \<lparr>m_runtime_library = lib, m_get_instance_proc_addr = gipa, m_supported_extensions = [],
      m_dispatch_table_map = Map.empty, m_messenger_to_instance_map = Map.empty\<rparr>"

section \<open>Loading a runtime\<close>

text \<open>
  The state of the singleton accessor \<open>GetInstance()\<close> together with the calls made so
  far, and, during a scan, the two locals of \<open>LoadRuntime\<close> that every candidate
  receives by reference.
\<close>

record loader =
  GetInstance :: "RuntimeInterface option"
  calls :: "call list"

record scan = loader +
  any_loaded :: bool
  last_error :: XrResult

subsection \<open>Extension reconciliation\<close>

text \<open>
  The inner loop of \<open>GetInstanceExtensionProperties\<close>: the first index below
  \<open>props_count\<close>, starting at \<open>prop\<close>, whose name equals the runtime's (\<open>strcmp\<close>
  returning zero), if any.
\<close>

function find_prop ::
  "XrExtensionProperties list \<Rightarrow> nat \<Rightarrow> string \<Rightarrow> nat \<Rightarrow> nat option" where
  "find_prop extension_properties props_count name prop =
     (if prop < props_count then
        (if extensionName (extension_properties ! prop) = name then Some prop
         else find_prop extension_properties props_count name (Suc prop))
      else None)"
  by pat_completeness auto
termination
  by (relation "measure (\<lambda>(ps, n, name, prop). n - prop)") auto

declare find_prop.simps [simp del]

text \<open>
  The outer loop over the runtime's list. \<open>props_count\<close> is read once before the loop,
  so only the entries the caller supplied are searched, never the appended ones.
\<close>

fun reconcile ::
  "nat \<Rightarrow> XrExtensionProperties list \<Rightarrow> XrExtensionProperties list \<Rightarrow> XrExtensionProperties list"
  where
  "reconcile props_count [] extension_properties = extension_properties"
| "reconcile props_count (rt_ext # rest) extension_properties =
     reconcile props_count rest
       (case find_prop extension_properties props_count (extensionName rt_ext) 0 of
          Some prop \<Rightarrow>
            extension_properties
              [prop := (extension_properties ! prop)\<lparr>extensionVersion := extensionVersion rt_ext\<rparr>]
        | None \<Rightarrow> extension_properties @ [rt_ext])"

text \<open>
  The runtime is asked for its count, then for the entries; a runtime that reports no
  extension is not asked twice. The vector then holds what the runtime reported.
\<close>

definition GetInstanceExtensionProperties ::
  "RuntimeInterface \<Rightarrow> XrExtensionProperties list \<Rightarrow> XrExtensionProperties list" where
  "GetInstanceExtensionProperties this extension_properties =
     (let reported = rt_xrEnumerateInstanceExtensionProperties (m_get_instance_proc_addr this);
          count_output = length reported;
          runtime_extension_properties = (if count_output > 0 then reported else []);
          props_count = length extension_properties
      in reconcile props_count runtime_extension_properties extension_properties)"

text \<open>
  The calls \<open>GetInstanceExtensionProperties\<close> makes on the runtime: one for the count,
  and one more to fill the buffer when the count is not zero.
\<close>

definition enumerate_calls :: "RuntimeInterface \<Rightarrow> call list" where
  "enumerate_calls this =
     (let count_output =
            length (rt_xrEnumerateInstanceExtensionProperties (m_get_instance_proc_addr this))
      in if count_output > 0
         then [xrEnumerateInstanceExtensionProperties_called,
               xrEnumerateInstanceExtensionProperties_called]
         else [xrEnumerateInstanceExtensionProperties_called])"

definition SetSupportedExtensions :: "string list \<Rightarrow> RuntimeInterface \<Rightarrow> RuntimeInterface" where
  "SetSupportedExtensions exts this = this\<lparr>m_supported_extensions := exts\<rparr>"

definition SupportsExtension :: "RuntimeInterface \<Rightarrow> string \<Rightarrow> bool" where
  "SupportsExtension this extension_name = (extension_name \<in> set (m_supported_extensions this))"

subsection \<open>Negotiation\<close>

text \<open>The request the loader sends.\<close>

definition loader_info :: "platform \<Rightarrow> XrNegotiateLoaderInfo" where
  "loader_info P =
     \<lparr>structType = XR_LOADER_INTERFACE_STRUCT_LOADER_INFO P,
      structVersion = XR_LOADER_INFO_STRUCT_VERSION P,
      structSize = sizeof_XrNegotiateLoaderInfo P,
      minInterfaceVersion = 1,
      maxInterfaceVersion = XR_CURRENT_LOADER_RUNTIME_VERSION P,
      minApiVersion = XR_MAKE_VERSION 1 0 0,
      maxApiVersion = XR_MAKE_VERSION 1 0x3ff 0xfff\<rparr>"

text \<open>The zero-initialised response structure the runtime fills in.\<close>

definition runtime_info0 :: "platform \<Rightarrow> XrNegotiateRuntimeRequest" where
  "runtime_info0 P =
     \<lparr>structType = XR_LOADER_INTERFACE_STRUCT_RUNTIME_REQUEST P,
      structVersion = XR_RUNTIME_INFO_STRUCT_VERSION P,
      structSize = sizeof_XrNegotiateRuntimeRequest P,
      runtimeInterfaceVersion = 0,
      runtimeApiVersion = 0,
      getInstanceProcAddr = None\<rparr>"

text \<open>
  The checks on a response, as \<open>TryLoadingSingleRuntime\<close> makes them after the call:
  they run only when the call itself succeeded, and each failing check replaces the
  result.
\<close>

definition check_response :: "platform \<Rightarrow> XrResult \<Rightarrow> XrNegotiateRuntimeRequest \<Rightarrow> XrResult" where
  "check_response P res runtime_info =
     (if XR_SUCCEEDED res then
        (let runtime_major = XR_VERSION_MAJOR (runtimeApiVersion runtime_info);
             runtime_minor = XR_VERSION_MINOR (runtimeApiVersion runtime_info);
             loader_major = XR_VERSION_MAJOR (XR_CURRENT_API_VERSION P)
         in if getInstanceProcAddr runtime_info = None then XR_ERROR_FILE_CONTENTS_INVALID
            else if 0 \<ge> runtimeInterfaceVersion runtime_info \<or>
                    XR_CURRENT_LOADER_RUNTIME_VERSION P < runtimeInterfaceVersion runtime_info
              then XR_ERROR_FILE_CONTENTS_INVALID
            else if runtime_major \<noteq> loader_major \<or> (runtime_major = 0 \<and> runtime_minor = 0)
              then XR_ERROR_FILE_CONTENTS_INVALID
            else res)
      else res)"

text \<open>
  Resolving the negotiation entry point and calling it: a missing entry point is a
  runtime failure and leaves the response structure as initialised.
\<close>

definition negotiate ::
  "platform \<Rightarrow> RuntimeManifestFile \<Rightarrow> LoaderPlatformLibraryHandle
     \<Rightarrow> XrResult \<times> XrNegotiateRuntimeRequest" where
  "negotiate P manifest_file lib =
     (case GetProcAddr_negotiate P lib
             (GetFunctionName manifest_file ''xrNegotiateLoaderRuntimeInterface'') of
        None \<Rightarrow> (XR_ERROR_RUNTIME_FAILURE, runtime_info0 P)
      | Some negotiate_fn \<Rightarrow> negotiate_fn (loader_info P) (runtime_info0 P))"

text \<open>
  The block compiled under \<open>XR_KHR_LOADER_INIT_SUPPORT\<close>: the result of forwarding the
  init call, when the build has the block and the runtime exports the function.
\<close>

definition forward_initialize ::
  "platform \<Rightarrow> RuntimeManifestFile \<Rightarrow> LoaderPlatformLibraryHandle \<Rightarrow> XrResult option" where
  "forward_initialize P manifest_file lib =
     (if XR_KHR_LOADER_INIT_SUPPORT P
      then GetProcAddr_initialize P lib
             (GetFunctionName manifest_file ''xrInitializeLoaderKHR'')
      else None)"

text \<open>
  Replacing the singleton destroys the session it held: its dispatch tables are dropped
  and its library is closed.
\<close>

definition destroy_calls :: "RuntimeInterface option \<Rightarrow> call list" where
  "destroy_calls old =
     (case old of None \<Rightarrow> [] | Some this \<Rightarrow> [LibraryClose_called (m_runtime_library this)])"

text \<open>The session a candidate is bound as, with the extension names the runtime reports.\<close>

definition bound_session ::
  "LoaderPlatformLibraryHandle \<Rightarrow> PFN_xrGetInstanceProcAddr \<Rightarrow> RuntimeInterface" where
  "bound_session lib gipa =
     (let this = new_RuntimeInterface lib gipa;
          extension_properties = GetInstanceExtensionProperties this [];
          supported = map extensionName extension_properties
      in SetSupportedExtensions supported this)"

text \<open>
  The second half of \<open>TryLoadingSingleRuntime\<close>, from the resolution of the negotiation
  entry point to the end: negotiate, check the response, then either give the candidate
  up (closing its library) or bind it. Binding reads the getter out of the response; the
  checks have rejected a null getter by then, so the case of a missing getter in the
  binding branch is never reached (lemma \<open>check_response_ok_getter\<close> below).
\<close>

definition negotiate_and_bind ::
  "platform \<Rightarrow> RuntimeManifestFile \<Rightarrow> LoaderPlatformLibraryHandle \<Rightarrow> scan \<Rightarrow> scan" where
  "negotiate_and_bind P manifest_file lib s =
     (let negotiated =
            (case GetProcAddr_negotiate P lib
                    (GetFunctionName manifest_file ''xrNegotiateLoaderRuntimeInterface'') of
               None \<Rightarrow> s
             | Some _ \<Rightarrow> s\<lparr>calls := calls s @ [xrNegotiateLoaderRuntimeInterface_called lib]\<rparr>);
          (res0, runtime_info) = negotiate P manifest_file lib;
          res = check_response P res0 runtime_info
      in if XR_FAILED res then
           (let closed = negotiated\<lparr>calls := calls negotiated @ [LibraryClose_called lib]\<rparr>
            in if \<not> any_loaded s then closed\<lparr>last_error := res\<rparr> else closed)
         else
           (case getInstanceProcAddr runtime_info of
              None \<Rightarrow> negotiated
            | Some gipa \<Rightarrow>
                negotiated
                  \<lparr>GetInstance := Some (bound_session lib gipa),
                   calls := calls negotiated @ destroy_calls (GetInstance s) @
                     enumerate_calls (new_RuntimeInterface lib gipa),
                   any_loaded := True,
                   last_error := XR_SUCCESS\<rparr>))"

text \<open>
  One candidate. The function never looks at \<open>GetInstance()\<close> before it binds; a failed
  open and a failed negotiation write \<open>last_error\<close> under \<open>if (!any_loaded)\<close>, a failed
  init call writes it directly.
\<close>

definition TryLoadingSingleRuntime :: "platform \<Rightarrow> RuntimeManifestFile \<Rightarrow> scan \<Rightarrow> scan" where
  "TryLoadingSingleRuntime P manifest_file s =
     (let opened = s\<lparr>calls := calls s @ [LibraryOpen_called (LibraryPath manifest_file)]\<rparr> in
      case LoaderPlatformLibraryOpen P (LibraryPath manifest_file) of
        None \<Rightarrow>
          (if \<not> any_loaded s then opened\<lparr>last_error := XR_ERROR_INSTANCE_LOST\<rparr> else opened)
      | Some lib \<Rightarrow>
          (case forward_initialize P manifest_file lib of
             None \<Rightarrow> negotiate_and_bind P manifest_file lib opened
           | Some res \<Rightarrow>
               (let inited = opened\<lparr>calls := calls opened @ [xrInitializeLoaderKHR_called lib]\<rparr>
                in if \<not> XR_SUCCEEDED res then
                     inited\<lparr>last_error := res,
                            calls := calls inited @ [LibraryClose_called lib]\<rparr>
                   else negotiate_and_bind P manifest_file lib inited)))"

text \<open>The loop of \<open>LoadRuntime\<close> over the manifests, in order: it has no exit of its own.\<close>

primrec try_all :: "platform \<Rightarrow> RuntimeManifestFile list \<Rightarrow> scan \<Rightarrow> scan" where
  "try_all P [] s = s"
| "try_all P (manifest_file # rest) s = try_all P rest (TryLoadingSingleRuntime P manifest_file s)"

definition LoadRuntime :: "platform \<Rightarrow> loader \<Rightarrow> XrResult \<times> loader" where
  "LoadRuntime P L =
     (if GetInstance L \<noteq> None then (XR_SUCCESS, L)
      else if XR_KHR_LOADER_INIT_SUPPORT P \<and> \<not> initialized P
        then (XR_ERROR_INITIALIZATION_FAILED, L)
      else
        (let (found, runtime_manifest_files) = FindManifestFiles P;
             s0 = \<lparr>GetInstance = GetInstance L, calls = calls L @ [FindManifestFiles_called],
                   any_loaded = False, last_error = found\<rparr>;
             s = (if XR_FAILED found then s0\<lparr>last_error := XR_ERROR_FILE_ACCESS_ERROR\<rparr>
                  else try_all P runtime_manifest_files s0);
             result = (if \<not> any_loaded s then XR_ERROR_INSTANCE_LOST else last_error s)
         in (result, \<lparr>GetInstance = GetInstance s, calls = calls s\<rparr>)))"

definition UnloadRuntime :: "loader \<Rightarrow> loader" where
  "UnloadRuntime L =
     (case GetInstance L of
        None \<Rightarrow> L
      | Some this \<Rightarrow> L\<lparr>GetInstance := None, calls := calls L @ destroy_calls (Some this)\<rparr>)"

section \<open>Instances and debug messengers\<close>

record XrInstanceCreateInfo =
  applicationName :: string
  enabledExtensionNames :: "string list"

text \<open>
  The runtime's \<open>xrCreateInstance\<close> receives the create info and the caller's handle
  variable; it returns a result and the value the variable holds afterwards.
\<close>

type_synonym PFN_xrCreateInstance =
  "XrInstanceCreateInfo \<Rightarrow> XrInstance \<Rightarrow> XrResult \<times> XrInstance"

text \<open>
  Modelled from the spec: populating a dispatch table is one build-or-fail step of the
  generated code, which is not part of the sources at hand. It is given the new instance
  and the entry-point getter and yields an outcome and the populated table.
\<close>

type_synonym populate_fn =
  "XrInstance \<Rightarrow> PFN_xrGetInstanceProcAddr \<Rightarrow> XrResult \<times> XrGeneratedDispatchTable"

text \<open>
  \<open>CreateInstance\<close> returns its result, the value left in the caller's handle variable,
  the session, and the calls it made on the runtime. \<open>res\<close> is assigned once, from the
  runtime's create call; the populate step is called as a statement.
\<close>

definition CreateInstance ::
  "PFN_xrCreateInstance \<Rightarrow> populate_fn \<Rightarrow> XrInstanceCreateInfo \<Rightarrow> XrInstance \<Rightarrow> RuntimeInterface
     \<Rightarrow> XrResult \<times> XrInstance \<times> RuntimeInterface \<times> call list" where
  "CreateInstance rt_xrCreateInstance GeneratedXrPopulateDispatchTable info instance0 this =
     (let (res, instance) = rt_xrCreateInstance info instance0;
          create_succeeded = XR_SUCCEEDED res;
          this1 =
            (if XR_SUCCEEDED res then
               (let dispatch_table =
                      snd (GeneratedXrPopulateDispatchTable instance (m_get_instance_proc_addr this))
                in this\<lparr>m_dispatch_table_map := (m_dispatch_table_map this)(instance \<mapsto> dispatch_table)\<rparr>)
             else this)
      in if XR_FAILED res \<and> create_succeeded
         then (res, XR_NULL_HANDLE, this1, [xrCreateInstance_called, xrDestroyInstance_called instance])
         else (res, instance, this1, [xrCreateInstance_called]))"

definition DestroyInstance ::
  "XrInstance \<Rightarrow> RuntimeInterface \<Rightarrow> XrResult \<times> RuntimeInterface \<times> call list" where
  "DestroyInstance instance this =
     (if XR_NULL_HANDLE \<noteq> instance then
        (let this1 =
               (case m_dispatch_table_map this instance of
                  Some _ \<Rightarrow> this\<lparr>m_dispatch_table_map := (m_dispatch_table_map this)(instance := None)\<rparr>
                | None \<Rightarrow> this)
         in (XR_SUCCESS, this1, [xrDestroyInstance_called instance]))
      else (XR_SUCCESS, this, []))"

text \<open>A lookup yields the table or nothing (the null pointer).\<close>

definition GetDispatchTable :: "RuntimeInterface \<Rightarrow> XrInstance \<Rightarrow> XrGeneratedDispatchTable option" where
  "GetDispatchTable this instance = m_dispatch_table_map this instance"

definition GetDebugUtilsMessengerDispatchTable ::
  "RuntimeInterface \<Rightarrow> XrDebugUtilsMessengerEXT \<Rightarrow> XrGeneratedDispatchTable option" where
  "GetDebugUtilsMessengerDispatchTable this messenger =
     (let runtime_instance =
            (case m_messenger_to_instance_map this messenger of
               Some owner \<Rightarrow> owner
             | None \<Rightarrow> XR_NULL_HANDLE)
      in GetDispatchTable this runtime_instance)"

definition TrackDebugMessenger ::
  "XrInstance \<Rightarrow> XrDebugUtilsMessengerEXT \<Rightarrow> RuntimeInterface \<Rightarrow> bool \<times> RuntimeInterface" where
  "TrackDebugMessenger instance messenger this =
     (True, this\<lparr>m_messenger_to_instance_map := (m_messenger_to_instance_map this)(messenger \<mapsto> instance)\<rparr>)"

definition ForgetDebugMessenger :: "XrDebugUtilsMessengerEXT \<Rightarrow> RuntimeInterface \<Rightarrow> RuntimeInterface" where
  "ForgetDebugMessenger messenger this =
     (if XR_NULL_HANDLE \<noteq> messenger
      then this\<lparr>m_messenger_to_instance_map := (m_messenger_to_instance_map this)(messenger := None)\<rparr>
      else this)"

section \<open>Notions used to state the properties\<close>

subsection \<open>Negotiation\<close>

text \<open>
  The rejection conditions as the specification lists them: a null entry-point getter, an
  interface version that is not positive or exceeds the loader's maximum, an API major
  version other than the loader's, or the zero-major zero-minor API version.
\<close>

definition spec_rejects :: "platform \<Rightarrow> XrNegotiateRuntimeRequest \<Rightarrow> bool" where
  "spec_rejects P response =
     (getInstanceProcAddr response = None
      \<or> runtimeInterfaceVersion response \<le> 0
      \<or> runtimeInterfaceVersion response > XR_CURRENT_LOADER_RUNTIME_VERSION P
      \<or> XR_VERSION_MAJOR (runtimeApiVersion response) \<noteq> XR_VERSION_MAJOR (XR_CURRENT_API_VERSION P)
      \<or> (XR_VERSION_MAJOR (runtimeApiVersion response) = 0
          \<and> XR_VERSION_MINOR (runtimeApiVersion response) = 0))"

subsection \<open>The scan\<close>

text \<open>The locals of a scan that has tried nothing yet, with no session and no call made.\<close>

definition fresh_scan :: scan where
  "fresh_scan = \<lparr>GetInstance = None, calls = [], any_loaded = False, last_error = XR_SUCCESS\<rparr>"

text \<open>
  A candidate negotiates successfully when trying it alone loads it; \<open>binding_of\<close> is the
  session it is then bound as.
\<close>

definition negotiates_successfully :: "platform \<Rightarrow> RuntimeManifestFile \<Rightarrow> bool" where
  "negotiates_successfully P manifest_file =
     any_loaded (TryLoadingSingleRuntime P manifest_file fresh_scan)"

definition binding_of :: "platform \<Rightarrow> RuntimeManifestFile \<Rightarrow> RuntimeInterface option" where
  "binding_of P manifest_file = GetInstance (TryLoadingSingleRuntime P manifest_file fresh_scan)"

text \<open>The library paths that were handed to the platform's open primitive, in order.\<close>

fun opened_paths :: "call list \<Rightarrow> string list" where
  "opened_paths [] = []"
| "opened_paths (LibraryOpen_called path # cs) = path # opened_paths cs"
| "opened_paths (c # cs) = opened_paths cs"

subsection \<open>Extension reconciliation\<close>

text \<open>
  An entry is the first of its name when no earlier entry of the list has that name; the
  runtime's last word on a name is the last entry it reports under it.
\<close>

definition first_with_name :: "XrExtensionProperties list \<Rightarrow> nat \<Rightarrow> bool" where
  "first_with_name props i =
     (extensionName (props ! i) \<notin> set (map extensionName (take i props)))"

definition last_reported :: "string \<Rightarrow> XrExtensionProperties list \<Rightarrow> XrExtensionProperties option" where
  "last_reported name reported = find (\<lambda>e. extensionName e = name) (rev reported)"

text \<open>One round of the outer loop of \<open>reconcile\<close>.\<close>

definition reconcile_step ::
  "nat \<Rightarrow> XrExtensionProperties \<Rightarrow> XrExtensionProperties list \<Rightarrow> XrExtensionProperties list" where
  "reconcile_step n e ps =
     (case find_prop ps n (extensionName e) 0 of
        Some prop \<Rightarrow> ps[prop := (ps ! prop)\<lparr>extensionVersion := extensionVersion e\<rparr>]
      | None \<Rightarrow> ps @ [e])"

subsection \<open>Sequences of instance calls\<close>

text \<open>
  A caller creating and destroying instances. Beside the session, the run keeps the set
  of handles the caller holds as live: a handle enters it when \<open>CreateInstance\<close> returns
  it with a successful result and leaves it when the caller passes it to
  \<open>DestroyInstance\<close>.
\<close>

datatype instance_call =
  Create PFN_xrCreateInstance populate_fn XrInstanceCreateInfo XrInstance
  | Destroy XrInstance

fun run_calls ::
  "instance_call list \<Rightarrow> RuntimeInterface \<times> XrInstance set \<Rightarrow> RuntimeInterface \<times> XrInstance set" where
  "run_calls [] st = st"
| "run_calls (Create rt populate info instance0 # rest) (this, live) =
     (case CreateInstance rt populate info instance0 this of
        (res, instance, this', made) \<Rightarrow>
          run_calls rest (this', if XR_SUCCEEDED res then insert instance live else live))"
| "run_calls (Destroy instance # rest) (this, live) =
     (case DestroyInstance instance this of
        (res, this', made) \<Rightarrow> run_calls rest (this', live - {instance}))"

text \<open>Away from the null handle, the cache holds a table exactly for the live handles.\<close>

definition cache_tracks :: "RuntimeInterface \<times> XrInstance set \<Rightarrow> bool" where
  "cache_tracks st =
     (\<forall>h. h \<noteq> XR_NULL_HANDLE \<longrightarrow> (GetDispatchTable (fst st) h \<noteq> None \<longleftrightarrow> h \<in> snd st))"

section \<open>Example configurations\<close>

definition manifest :: "string \<Rightarrow> RuntimeManifestFile" where
  "manifest path = \<lparr>Filename = path @ ''.json'', LibraryPath = path, functions_renamed = Map.empty\<rparr>"

text \<open>A negotiation entry point that fills the response with fixed values.\<close>

definition answering ::
  "XrResult \<Rightarrow> 32 word \<Rightarrow> XrVersion \<Rightarrow> PFN_xrGetInstanceProcAddr option
     \<Rightarrow> PFN_xrNegotiateLoaderRuntimeInterface" where
  "answering res iv av g =
     (\<lambda>li ri. (res, ri\<lparr>runtimeInterfaceVersion := iv, runtimeApiVersion := av,
                        getInstanceProcAddr := g\<rparr>))"

text \<open>
  A host with the given manifests and libraries, whose libraries export the init and the
  negotiation entry points under their standard names. The loader is at interface
  version 1 and API version 1.0.14, and has been initialised.
\<close>

definition host ::
  "bool \<Rightarrow> RuntimeManifestFile list \<Rightarrow> (string \<rightharpoonup> nat) \<Rightarrow> (nat \<rightharpoonup> XrResult)
     \<Rightarrow> (nat \<rightharpoonup> PFN_xrNegotiateLoaderRuntimeInterface) \<Rightarrow> platform" where
  "host init_support manifests libs inits negs =
     \<lparr>XR_KHR_LOADER_INIT_SUPPORT = init_support,
      initialized = True,
      XR_CURRENT_LOADER_RUNTIME_VERSION = 1,
      XR_CURRENT_API_VERSION = XR_MAKE_VERSION 1 0 14,
      XR_LOADER_INTERFACE_STRUCT_LOADER_INFO = 1,
      XR_LOADER_INFO_STRUCT_VERSION = 1,
      sizeof_XrNegotiateLoaderInfo = 40,
      XR_LOADER_INTERFACE_STRUCT_RUNTIME_REQUEST = 3,
      XR_RUNTIME_INFO_STRUCT_VERSION = 1,
      sizeof_XrNegotiateRuntimeRequest = 40,
      FindManifestFiles = (XR_SUCCESS, manifests),
      LoaderPlatformLibraryOpen = libs,
      GetProcAddr_initialize =
        (\<lambda>lib name. if name = ''xrInitializeLoaderKHR'' then inits lib else None),
      GetProcAddr_negotiate =
        (\<lambda>lib name. if name = ''xrNegotiateLoaderRuntimeInterface'' then negs lib else None)\<rparr>"

definition unbound :: loader where
  "unbound = \<lparr>GetInstance = None, calls = []\<rparr>"

text \<open>A well-behaved runtime that reports one extension.\<close>

definition runtime_reporting :: "string \<Rightarrow> PFN_xrNegotiateLoaderRuntimeInterface" where
  "runtime_reporting ext =
     answering XR_SUCCESS 1 (XR_MAKE_VERSION 1 0 14)
       (Some (GetInstanceProcAddr [\<lparr>extensionName = ext, extensionVersion = 1\<rparr>]))"

text \<open>
  Two installed runtimes, both well-behaved at negotiation; \<open>inits\<close> gives the result of
  the init entry point of those that export one.
\<close>

definition two_runtimes :: "bool \<Rightarrow> (nat \<rightharpoonup> XrResult) \<Rightarrow> platform" where
  "two_runtimes init_support inits =
     host init_support [manifest ''first.so'', manifest ''second.so'']
       [''first.so'' \<mapsto> 1, ''second.so'' \<mapsto> 2] inits
       [1 \<mapsto> runtime_reporting ''XR_first'', 2 \<mapsto> runtime_reporting ''XR_second'']"

text \<open>One runtime whose negotiation succeeds but hands back a null entry-point getter.\<close>

definition null_getter_runtime :: platform where
  "null_getter_runtime =
     host False [manifest ''rt.so''] [''rt.so'' \<mapsto> 1] Map.empty
       [1 \<mapsto> answering XR_SUCCESS 1 (XR_MAKE_VERSION 1 0 14) None]"

text \<open>One runtime that answers with API version 2.0.0.\<close>

definition major2_runtime :: platform where
  "major2_runtime =
     host False [manifest ''rt.so''] [''rt.so'' \<mapsto> 1] Map.empty
       [1 \<mapsto> answering XR_SUCCESS 1 (XR_MAKE_VERSION 2 0 0) (Some (GetInstanceProcAddr []))]"

text \<open>A runtime's create call with a fixed answer, and a populate step with a fixed outcome.\<close>

definition answers :: "XrResult \<Rightarrow> XrInstance \<Rightarrow> PFN_xrCreateInstance" where
  "answers res instance = (\<lambda>info instance0. (res, instance))"

definition populates :: "XrResult \<Rightarrow> populate_fn" where
  "populates res = (\<lambda>instance gipa. (res, [(''xrDestroyInstance'', 1)]))"

definition some_info :: XrInstanceCreateInfo where
  "some_info = \<lparr>applicationName = ''app'', enabledExtensionNames = []\<rparr>"

definition fresh_session :: RuntimeInterface where
  "fresh_session = new_RuntimeInterface 1 (GetInstanceProcAddr [])"

text \<open>The caller's list and the runtime's list of the specification's merge example.\<close>

definition example_candidates :: "XrExtensionProperties list" where
  "example_candidates =
     [\<lparr>extensionName = ''A'', extensionVersion = 1\<rparr>, \<lparr>extensionName = ''B'', extensionVersion = 1\<rparr>]"

definition example_runtime_session :: RuntimeInterface where
  "example_runtime_session =
     new_RuntimeInterface 1
       (GetInstanceProcAddr
          [\<lparr>extensionName = ''B'', extensionVersion = 2\<rparr>,
           \<lparr>extensionName = ''C'', extensionVersion = 1\<rparr>])"

section \<open>Basic facts\<close>

named_theorems xr_codes \<open>numeric values of the result codes and the two tests on them\<close>

lemmas xr_code_values [xr_codes] =
  XR_SUCCESS_def XR_ERROR_RUNTIME_FAILURE_def XR_ERROR_INITIALIZATION_FAILED_def
  XR_ERROR_INSTANCE_LOST_def XR_ERROR_FILE_ACCESS_ERROR_def
  XR_ERROR_FILE_CONTENTS_INVALID_def XR_SUCCEEDED_def XR_FAILED_def

subsection \<open>The response checks\<close>

lemma check_response_iff:
  "XR_SUCCEEDED res \<Longrightarrow>
     (check_response P res ri = XR_ERROR_FILE_CONTENTS_INVALID) = spec_rejects P ri"
  by (auto simp: check_response_def spec_rejects_def Let_def xr_codes)

lemma check_response_accept:
  "XR_SUCCEEDED res \<Longrightarrow> \<not> spec_rejects P ri \<Longrightarrow> check_response P res ri = res"
  by (auto simp: check_response_def spec_rejects_def Let_def xr_codes)

lemma check_response_ok_getter:
  "\<not> XR_FAILED (check_response P res ri) \<Longrightarrow> getInstanceProcAddr ri \<noteq> None"
  by (auto simp: check_response_def Let_def xr_codes split: if_splits)

subsection \<open>One candidate\<close>

lemma opened_paths_append: "opened_paths (xs @ ys) = opened_paths xs @ opened_paths ys"
  by (induction xs rule: opened_paths.induct) simp_all

lemma opened_paths_destroy_calls: "opened_paths (destroy_calls old) = []"
  by (cases old) (simp_all add: destroy_calls_def)

lemma nb_any_loaded:
  "any_loaded (negotiate_and_bind P m lib s) =
     (any_loaded s \<or> \<not> XR_FAILED (check_response P (fst (negotiate P m lib)) (snd (negotiate P m lib))))"
  using check_response_ok_getter [of P "fst (negotiate P m lib)" "snd (negotiate P m lib)"]
  by (auto simp: negotiate_and_bind_def Let_def split: option.splits prod.splits)

lemma nb_session:
  "GetInstance (negotiate_and_bind P m lib s) =
     (if XR_FAILED (check_response P (fst (negotiate P m lib)) (snd (negotiate P m lib)))
      then GetInstance s
      else map_option (bound_session lib) (getInstanceProcAddr (snd (negotiate P m lib))))"
  using check_response_ok_getter [of P "fst (negotiate P m lib)" "snd (negotiate P m lib)"]
  by (auto simp: negotiate_and_bind_def Let_def split: option.splits prod.splits)

lemma opened_paths_enumerate_calls: "opened_paths (enumerate_calls this) = []"
  by (simp add: enumerate_calls_def Let_def)

lemma nb_opened:
  "opened_paths (calls (negotiate_and_bind P m lib s)) = opened_paths (calls s)"
  by (auto simp: negotiate_and_bind_def Let_def opened_paths_append opened_paths_destroy_calls
      opened_paths_enumerate_calls split: option.splits prod.splits)

lemma nb_last_error:
  "last_error (negotiate_and_bind P m lib s) =
     (if XR_FAILED (check_response P (fst (negotiate P m lib)) (snd (negotiate P m lib)))
      then (if any_loaded s then last_error s
            else check_response P (fst (negotiate P m lib)) (snd (negotiate P m lib)))
      else XR_SUCCESS)"
  using check_response_ok_getter [of P "fst (negotiate P m lib)" "snd (negotiate P m lib)"]
  by (auto simp: negotiate_and_bind_def Let_def split: option.splits prod.splits)

lemma try_unfold:
  "TryLoadingSingleRuntime P m s =
     (case LoaderPlatformLibraryOpen P (LibraryPath m) of
        None \<Rightarrow>
          (if \<not> any_loaded s
           then s\<lparr>calls := calls s @ [LibraryOpen_called (LibraryPath m)],
                  last_error := XR_ERROR_INSTANCE_LOST\<rparr>
           else s\<lparr>calls := calls s @ [LibraryOpen_called (LibraryPath m)]\<rparr>)
      | Some lib \<Rightarrow>
          (case forward_initialize P m lib of
             None \<Rightarrow> negotiate_and_bind P m lib
                       (s\<lparr>calls := calls s @ [LibraryOpen_called (LibraryPath m)]\<rparr>)
           | Some res \<Rightarrow>
               (if \<not> XR_SUCCEEDED res then
                  s\<lparr>calls := calls s @ [LibraryOpen_called (LibraryPath m),
                        xrInitializeLoaderKHR_called lib, LibraryClose_called lib],
                     last_error := res\<rparr>
                else negotiate_and_bind P m lib
                       (s\<lparr>calls := calls s @ [LibraryOpen_called (LibraryPath m),
                              xrInitializeLoaderKHR_called lib]\<rparr>))))"
  by (simp add: TryLoadingSingleRuntime_def Let_def split: option.split)

lemma try_any_loaded:
  "any_loaded (TryLoadingSingleRuntime P m s) = (any_loaded s \<or> negotiates_successfully P m)"
  unfolding negotiates_successfully_def try_unfold
  by (simp add: nb_any_loaded fresh_scan_def split: option.split)

lemma try_session:
  "GetInstance (TryLoadingSingleRuntime P m s) =
     (if negotiates_successfully P m then binding_of P m else GetInstance s)"
  unfolding negotiates_successfully_def binding_of_def try_unfold
  by (simp add: nb_any_loaded nb_session fresh_scan_def split: option.split)

lemma try_opened:
  "opened_paths (calls (TryLoadingSingleRuntime P m s)) = opened_paths (calls s) @ [LibraryPath m]"
  unfolding try_unfold
  by (simp add: nb_opened opened_paths_append split: option.split)

lemma nb_bound_inv:
  "any_loaded s \<longrightarrow> GetInstance s \<noteq> None \<Longrightarrow> any_loaded (negotiate_and_bind P m lib s) \<Longrightarrow>
     GetInstance (negotiate_and_bind P m lib s) \<noteq> None"
  using check_response_ok_getter [of P "fst (negotiate P m lib)" "snd (negotiate P m lib)"]
  by (auto simp: nb_any_loaded nb_session)

lemma try_bound_inv:
  assumes inv: "any_loaded s \<longrightarrow> GetInstance s \<noteq> None"
    and loaded: "any_loaded (TryLoadingSingleRuntime P m s)"
  shows "GetInstance (TryLoadingSingleRuntime P m s) \<noteq> None"
proof (cases "LoaderPlatformLibraryOpen P (LibraryPath m)")
  case None
  with assms show ?thesis by (simp add: try_unfold split: if_splits)
next
  case (Some lib)
  note opened = this
  have nb: "any_loaded (negotiate_and_bind P m lib (s\<lparr>calls := cs\<rparr>)) \<Longrightarrow>
      GetInstance (negotiate_and_bind P m lib (s\<lparr>calls := cs\<rparr>)) \<noteq> None" for cs
    by (rule nb_bound_inv) (use inv in simp_all)
  show ?thesis
  proof (cases "forward_initialize P m lib")
    case None
    with opened loaded show ?thesis by (simp add: try_unfold nb del: not_None_eq)
  next
    case (Some res)
    show ?thesis
    proof (cases "XR_SUCCEEDED res")
      case True
      with Some opened loaded show ?thesis by (simp add: try_unfold nb del: not_None_eq)
    next
      case False
      with Some opened loaded inv show ?thesis by (simp add: try_unfold)
    qed
  qed
qed

subsection \<open>The whole scan\<close>

lemma try_all_opened:
  "opened_paths (calls (try_all P ms s)) = opened_paths (calls s) @ map LibraryPath ms"
  by (induction ms arbitrary: s) (simp_all add: try_opened)

lemma try_all_any_loaded:
  "any_loaded (try_all P ms s) = (any_loaded s \<or> (\<exists>m\<in>set ms. negotiates_successfully P m))"
  by (induction ms arbitrary: s) (auto simp: try_any_loaded)

lemma try_all_session:
  "GetInstance (try_all P ms s) =
     (case filter (negotiates_successfully P) ms of
        [] \<Rightarrow> GetInstance s
      | m # good \<Rightarrow> binding_of P (last (m # good)))"
proof (induction ms arbitrary: s)
  case Nil
  show ?case by simp
next
  case (Cons m ms)
  note IH = Cons.IH
  show ?case
  proof (cases "filter (negotiates_successfully P) ms")
    case Nil
    then show ?thesis by (simp add: IH try_session)
  next
    case (Cons g gs)
    then show ?thesis by (simp add: IH)
  qed
qed

lemma try_all_bound_inv:
  "any_loaded s \<longrightarrow> GetInstance s \<noteq> None \<Longrightarrow>
     any_loaded (try_all P ms s) \<longrightarrow> GetInstance (try_all P ms s) \<noteq> None"
proof (induction ms arbitrary: s)
  case Nil
  then show ?case by simp
next
  case (Cons m ms)
  have "any_loaded (TryLoadingSingleRuntime P m s) \<longrightarrow> GetInstance (TryLoadingSingleRuntime P m s) \<noteq> None"
    using Cons.prems try_bound_inv [of s P m] by blast
  from Cons.IH [OF this] show ?case by simp
qed

subsection \<open>Evaluating the examples\<close>

lemma find_prop_out: "props_count \<le> prop \<Longrightarrow> find_prop ps props_count name prop = None"
  by (simp add: find_prop.simps)

lemma reconcile_0: "reconcile 0 rt ps = ps @ rt"
  by (induction rt arbitrary: ps) (simp_all add: find_prop_out)

lemma bound_session_eq:
  "bound_session lib gipa =
     \<lparr>m_runtime_library = lib, m_get_instance_proc_addr = gipa,
      m_supported_extensions = map extensionName (rt_xrEnumerateInstanceExtensionProperties gipa),
      m_dispatch_table_map = Map.empty, m_messenger_to_instance_map = Map.empty\<rparr>"
  by (simp add: bound_session_def new_RuntimeInterface_def GetInstanceExtensionProperties_def
      SetSupportedExtensions_def Let_def reconcile_0)

lemmas eval_defs = LoadRuntime_def TryLoadingSingleRuntime_def negotiate_and_bind_def negotiate_def
  check_response_def forward_initialize_def GetFunctionName_def destroy_calls_def
  enumerate_calls_def new_RuntimeInterface_def host_def manifest_def answering_def runtime_reporting_def unbound_def
  loader_info_def runtime_info0_def bound_session_eq Let_def
  XR_VERSION_MAJOR_def XR_VERSION_MINOR_def XR_MAKE_VERSION_def xr_codes

section \<open>Loading: the claims\<close>

text \<open>
  Claim C5. When the negotiation call itself succeeds, the response is rejected with
  \<open>XR_ERROR_FILE_CONTENTS_INVALID\<close> exactly when the entry-point getter is null, or the
  interface version is not positive or exceeds the loader's maximum, or the API major
  version differs from the loader's, or the API version is the zero-major zero-minor
  sentinel. A rejected candidate is not bound and, nothing being loaded yet, leaves that
  code in the last-error slot; any other successful response is accepted and the candidate
  is bound with the getter it returned.
\<close>

theorem negotiation_response_gate:
  assumes "negotiate P manifest_file lib = (res, response)"
    and "XR_SUCCEEDED res"
  shows "(check_response P res response = XR_ERROR_FILE_CONTENTS_INVALID \<longleftrightarrow> spec_rejects P response)
    \<and> (spec_rejects P response \<longrightarrow> \<not> any_loaded s \<longrightarrow>
          \<not> any_loaded (negotiate_and_bind P manifest_file lib s)
          \<and> GetInstance (negotiate_and_bind P manifest_file lib s) = GetInstance s
          \<and> last_error (negotiate_and_bind P manifest_file lib s) = XR_ERROR_FILE_CONTENTS_INVALID)
    \<and> (\<not> spec_rejects P response \<longrightarrow>
          check_response P res response = res
          \<and> any_loaded (negotiate_and_bind P manifest_file lib s)
          \<and> last_error (negotiate_and_bind P manifest_file lib s) = XR_SUCCESS
          \<and> getInstanceProcAddr response \<noteq> None
          \<and> GetInstance (negotiate_and_bind P manifest_file lib s) =
              map_option (bound_session lib) (getInstanceProcAddr response))"
proof -
  have iff: "check_response P res response = XR_ERROR_FILE_CONTENTS_INVALID \<longleftrightarrow> spec_rejects P response"
    by (rule check_response_iff [OF assms(2)])
  have rej: "XR_FAILED (check_response P res response)" if "spec_rejects P response"
    using that iff by (simp add: xr_codes)
  have acc: "check_response P res response = res" if "\<not> spec_rejects P response"
    by (rule check_response_accept [OF assms(2) that])
  have ok: "\<not> XR_FAILED (check_response P res response)" if "\<not> spec_rejects P response"
    using acc [OF that] assms(2) by (simp add: xr_codes)
  have getter: "getInstanceProcAddr response \<noteq> None" if "\<not> spec_rejects P response"
    using that by (simp add: spec_rejects_def)
  show ?thesis
    using iff rej acc ok getter
    by (simp add: nb_any_loaded nb_session nb_last_error assms(1) del: not_None_eq)
qed

text \<open>
  Witness for C5: a runtime that answers with API version 2.0.0 to a loader of major
  version 1 is rejected with \<open>XR_ERROR_FILE_CONTENTS_INVALID\<close> and not bound.
\<close>

theorem negotiation_response_gate_witness:
  "negotiate major2_runtime (manifest ''rt.so'') 1 =
     (XR_SUCCESS, (runtime_info0 major2_runtime)
        \<lparr>runtimeInterfaceVersion := 1, runtimeApiVersion := XR_MAKE_VERSION 2 0 0,
         getInstanceProcAddr := Some (GetInstanceProcAddr [])\<rparr>)
   \<and> XR_SUCCEEDED XR_SUCCESS
   \<and> GetInstance (negotiate_and_bind major2_runtime (manifest ''rt.so'') 1 fresh_scan) = None
   \<and> last_error (negotiate_and_bind major2_runtime (manifest ''rt.so'') 1 fresh_scan) =
       XR_ERROR_FILE_CONTENTS_INVALID"
proof -
  have n: "negotiate major2_runtime (manifest ''rt.so'') 1 =
     (XR_SUCCESS, (runtime_info0 major2_runtime)
        \<lparr>runtimeInterfaceVersion := 1, runtimeApiVersion := XR_MAKE_VERSION 2 0 0,
         getInstanceProcAddr := Some (GetInstanceProcAddr [])\<rparr>)"
    by (simp add: major2_runtime_def negotiate_def host_def manifest_def answering_def
        GetFunctionName_def)
  have s: "XR_SUCCEEDED XR_SUCCESS" by (simp add: xr_codes)
  have r: "spec_rejects major2_runtime ((runtime_info0 major2_runtime)
        \<lparr>runtimeInterfaceVersion := 1, runtimeApiVersion := XR_MAKE_VERSION 2 0 0,
         getInstanceProcAddr := Some (GetInstanceProcAddr [])\<rparr>)"
    by (simp add: spec_rejects_def major2_runtime_def host_def XR_VERSION_MAJOR_def
        XR_MAKE_VERSION_def)
  have f: "\<not> any_loaded fresh_scan" "GetInstance fresh_scan = None"
    by (simp_all add: fresh_scan_def)
  from negotiation_response_gate [OF n s, of fresh_scan] r f n s show ?thesis by simp
qed

text \<open>
  Claim C6. When a session is already bound, \<open>LoadRuntime\<close> returns \<open>XR_SUCCESS\<close> and
  leaves everything as it was: the session is the same and no call is made, neither on
  the manifest source nor on the library loader.
\<close>

theorem LoadRuntime_idempotent:
  "GetInstance L \<noteq> None \<Longrightarrow> LoadRuntime P L = (XR_SUCCESS, L)"
  by (simp add: LoadRuntime_def)

text \<open>
  Witness for C6: with a session bound and two runtimes installed, a further load
  returns at once.
\<close>

theorem LoadRuntime_idempotent_witness:
  "GetInstance \<lparr>GetInstance = Some fresh_session, calls = []\<rparr> \<noteq> None
   \<and> LoadRuntime (two_runtimes False Map.empty) \<lparr>GetInstance = Some fresh_session, calls = []\<rparr> =
       (XR_SUCCESS, \<lparr>GetInstance = Some fresh_session, calls = []\<rparr>)"
  using LoadRuntime_idempotent
    [of "\<lparr>GetInstance = Some fresh_session, calls = []\<rparr>" "two_runtimes False Map.empty"]
  by simp

text \<open>
  Claim C1, as stated: the first candidate whose negotiation is accepted becomes the bound
  backend and no later candidate is attempted. With two installed runtimes that both
  negotiate successfully, the first one does so, yet the library of the second is opened
  after the first was bound, the session of the first is destroyed (its library closed),
  and the session left bound is the second's.
\<close>

theorem first_match_counterexample:
  "negotiates_successfully (two_runtimes False Map.empty) (manifest ''first.so'')
   \<and> LoadRuntime (two_runtimes False Map.empty) unbound =
      (XR_SUCCESS,
       \<lparr>GetInstance = Some
          \<lparr>m_runtime_library = 2,
           m_get_instance_proc_addr =
             GetInstanceProcAddr [\<lparr>extensionName = ''XR_second'', extensionVersion = 1\<rparr>],
           m_supported_extensions = [''XR_second''],
           m_dispatch_table_map = Map.empty, m_messenger_to_instance_map = Map.empty\<rparr>,
        calls =
          [FindManifestFiles_called,
           LibraryOpen_called ''first.so'', xrNegotiateLoaderRuntimeInterface_called 1,
           xrEnumerateInstanceExtensionProperties_called,
           xrEnumerateInstanceExtensionProperties_called,
           LibraryOpen_called ''second.so'', xrNegotiateLoaderRuntimeInterface_called 2,
           LibraryClose_called 1,
           xrEnumerateInstanceExtensionProperties_called,
           xrEnumerateInstanceExtensionProperties_called]\<rparr>)"
  by (simp add: negotiates_successfully_def fresh_scan_def two_runtimes_def eval_defs)

text \<open>
  Claim C1, amended: a scan (no session bound before, the init handshake not missing, the
  manifest source succeeding) attempts every candidate in manifest order, whatever the
  earlier candidates did: the library of each is opened, in order. The session bound at
  the end is the one of the last candidate that negotiates successfully; with no such
  candidate no session is bound.
\<close>

theorem LoadRuntime_binds_last_accepted:
  assumes "GetInstance L = None"
    and "\<not> (XR_KHR_LOADER_INIT_SUPPORT P \<and> \<not> initialized P)"
    and "FindManifestFiles P = (found, manifests)"
    and "XR_SUCCEEDED found"
  shows "opened_paths (calls (snd (LoadRuntime P L))) =
           opened_paths (calls L) @ map LibraryPath manifests
    \<and> GetInstance (snd (LoadRuntime P L)) =
        (if filter (negotiates_successfully P) manifests = [] then None
         else binding_of P (last (filter (negotiates_successfully P) manifests)))"
proof -
  let ?s0 = "\<lparr>GetInstance = GetInstance L, calls = calls L @ [FindManifestFiles_called],
              any_loaded = False, last_error = found\<rparr>"
  from assms(4) have nf: "\<not> XR_FAILED found" by (simp add: xr_codes)
  have L: "snd (LoadRuntime P L) =
      \<lparr>GetInstance = GetInstance (try_all P manifests ?s0),
       calls = calls (try_all P manifests ?s0)\<rparr>"
    using assms(1,2,3) nf by (auto simp: LoadRuntime_def Let_def)
  have opened: "opened_paths (calls (try_all P manifests ?s0)) =
      opened_paths (calls L) @ map LibraryPath manifests"
    by (simp add: try_all_opened opened_paths_append)
  have bound: "GetInstance (try_all P manifests ?s0) =
        (if filter (negotiates_successfully P) manifests = [] then None
         else binding_of P (last (filter (negotiates_successfully P) manifests)))"
    using assms(1) by (simp add: try_all_session split: list.split)
  from L opened bound show ?thesis by simp
qed

text \<open>
  Witness for the amended C1: with the two well-behaved runtimes both libraries are
  opened and the session bound is the one \<open>second.so\<close> binds.
\<close>

theorem LoadRuntime_binds_last_accepted_witness:
  "GetInstance unbound = None
   \<and> \<not> (XR_KHR_LOADER_INIT_SUPPORT (two_runtimes False Map.empty)
          \<and> \<not> initialized (two_runtimes False Map.empty))
   \<and> FindManifestFiles (two_runtimes False Map.empty) =
        (XR_SUCCESS, [manifest ''first.so'', manifest ''second.so''])
   \<and> XR_SUCCEEDED XR_SUCCESS
   \<and> opened_paths (calls (snd (LoadRuntime (two_runtimes False Map.empty) unbound))) =
        [''first.so'', ''second.so'']
   \<and> GetInstance (snd (LoadRuntime (two_runtimes False Map.empty) unbound)) =
        binding_of (two_runtimes False Map.empty) (manifest ''second.so'')"
proof -
  let ?P = "two_runtimes False Map.empty"
  have h1: "GetInstance unbound = None" by (simp add: unbound_def)
  have h2: "\<not> (XR_KHR_LOADER_INIT_SUPPORT ?P \<and> \<not> initialized ?P)"
    by (simp add: two_runtimes_def host_def)
  have h3: "FindManifestFiles ?P = (XR_SUCCESS, [manifest ''first.so'', manifest ''second.so''])"
    by (simp add: two_runtimes_def host_def)
  have h4: "XR_SUCCEEDED XR_SUCCESS" by (simp add: xr_codes)
  have a1: "negotiates_successfully ?P (manifest ''first.so'')"
    by (simp add: negotiates_successfully_def fresh_scan_def two_runtimes_def eval_defs)
  have a2: "negotiates_successfully ?P (manifest ''second.so'')"
    by (simp add: negotiates_successfully_def fresh_scan_def two_runtimes_def eval_defs)
  have p: "map LibraryPath [manifest ''first.so'', manifest ''second.so''] =
      [''first.so'', ''second.so'']"
    by (simp add: manifest_def)
  have c: "opened_paths (calls unbound) = []" by (simp add: unbound_def)
  from LoadRuntime_binds_last_accepted [OF h1 h2 h3 h4] h1 h2 h3 h4 a1 a2 p c
  show ?thesis by simp
qed

text \<open>
  Claim C2, as stated: when no candidate is bound but a library opened and its negotiation
  was rejected, \<open>LoadRuntime\<close> returns the rejection code. The library of the one
  installed runtime opens and its negotiation is rejected with
  \<open>XR_ERROR_FILE_CONTENTS_INVALID\<close>, which is the last error the candidate leaves; the
  scan binds nothing and \<open>LoadRuntime\<close> returns \<open>XR_ERROR_INSTANCE_LOST\<close>.
\<close>

theorem no_backend_error_counterexample:
  "LoaderPlatformLibraryOpen null_getter_runtime (LibraryPath (manifest ''rt.so'')) = Some 1
   \<and> last_error (TryLoadingSingleRuntime null_getter_runtime (manifest ''rt.so'') fresh_scan) =
        XR_ERROR_FILE_CONTENTS_INVALID
   \<and> LoadRuntime null_getter_runtime unbound =
        (XR_ERROR_INSTANCE_LOST,
         \<lparr>GetInstance = None,
          calls = [FindManifestFiles_called, LibraryOpen_called ''rt.so'',
                   xrNegotiateLoaderRuntimeInterface_called 1, LibraryClose_called 1]\<rparr>)
   \<and> XR_ERROR_INSTANCE_LOST \<noteq> XR_ERROR_FILE_CONTENTS_INVALID"
  by (simp add: null_getter_runtime_def fresh_scan_def eval_defs)

text \<open>
  Claim C2, amended: a scan that leaves no candidate bound makes \<open>LoadRuntime\<close> return
  \<open>XR_ERROR_INSTANCE_LOST\<close>, whether every library failed to open or some opened and
  were rejected at negotiation, and whatever the rejection codes were.
\<close>

theorem LoadRuntime_unbound_returns_InstanceLost:
  assumes "GetInstance L = None"
    and "\<not> (XR_KHR_LOADER_INIT_SUPPORT P \<and> \<not> initialized P)"
    and "GetInstance (snd (LoadRuntime P L)) = None"
  shows "fst (LoadRuntime P L) = XR_ERROR_INSTANCE_LOST"
proof -
  obtain found manifests where fm: "FindManifestFiles P = (found, manifests)"
    by (cases "FindManifestFiles P") auto
  let ?s0 = "\<lparr>GetInstance = GetInstance L, calls = calls L @ [FindManifestFiles_called],
              any_loaded = False, last_error = found\<rparr>"
  show ?thesis
  proof (cases "XR_FAILED found")
    case True
    with assms(1,2) fm show ?thesis by (auto simp: LoadRuntime_def Let_def)
  next
    case False
    have inv: "any_loaded (try_all P manifests ?s0) \<longrightarrow> GetInstance (try_all P manifests ?s0) \<noteq> None"
      by (rule try_all_bound_inv) simp
    from assms fm False have "GetInstance (try_all P manifests ?s0) = None"
      by (auto simp: LoadRuntime_def Let_def)
    with inv have "\<not> any_loaded (try_all P manifests ?s0)" by blast
    with assms(1,2) fm False show ?thesis by (auto simp: LoadRuntime_def Let_def)
  qed
qed

text \<open>
  Witness for the amended C2: the runtime with the null getter is not bound, and the load
  returns \<open>XR_ERROR_INSTANCE_LOST\<close>.
\<close>

theorem LoadRuntime_unbound_returns_InstanceLost_witness:
  "GetInstance unbound = None
   \<and> \<not> (XR_KHR_LOADER_INIT_SUPPORT null_getter_runtime \<and> \<not> initialized null_getter_runtime)
   \<and> GetInstance (snd (LoadRuntime null_getter_runtime unbound)) = None
   \<and> fst (LoadRuntime null_getter_runtime unbound) = XR_ERROR_INSTANCE_LOST"
proof -
  have h1: "GetInstance unbound = None" by (simp add: unbound_def)
  have h2: "\<not> (XR_KHR_LOADER_INIT_SUPPORT null_getter_runtime \<and> \<not> initialized null_getter_runtime)"
    by (simp add: null_getter_runtime_def host_def)
  have h3: "GetInstance (snd (LoadRuntime null_getter_runtime unbound)) = None"
    by (simp add: null_getter_runtime_def eval_defs)
  from LoadRuntime_unbound_returns_InstanceLost [OF h1 h2 h3] h1 h2 h3 show ?thesis by simp
qed

text \<open>
  Claim C8, on a build with the init handshake: two runtimes are installed, the first
  negotiates successfully and is bound, the second exports the init entry point and fails
  it with \<open>XR_ERROR_RUNTIME_FAILURE\<close>. The scan goes on to the second candidate, and its
  failure is written to the last-error slot although a backend is bound: \<open>LoadRuntime\<close>
  returns the failure with the first runtime's session in place.
\<close>

theorem init_failure_after_binding_overwrites_last_error:
  "LoadRuntime (two_runtimes True [2 \<mapsto> XR_ERROR_RUNTIME_FAILURE]) unbound =
     (XR_ERROR_RUNTIME_FAILURE,
      \<lparr>GetInstance = Some
         \<lparr>m_runtime_library = 1,
          m_get_instance_proc_addr =
            GetInstanceProcAddr [\<lparr>extensionName = ''XR_first'', extensionVersion = 1\<rparr>],
          m_supported_extensions = [''XR_first''],
          m_dispatch_table_map = Map.empty, m_messenger_to_instance_map = Map.empty\<rparr>,
       calls =
         [FindManifestFiles_called,
          LibraryOpen_called ''first.so'', xrNegotiateLoaderRuntimeInterface_called 1,
          xrEnumerateInstanceExtensionProperties_called,
          xrEnumerateInstanceExtensionProperties_called,
          LibraryOpen_called ''second.so'', xrInitializeLoaderKHR_called 2,
          LibraryClose_called 2]\<rparr>)"
  by (simp add: two_runtimes_def eval_defs)

section \<open>Extension reconciliation: the claim\<close>

subsection \<open>The inner search\<close>

lemma find_prop_Some_iff:
  "find_prop ps n name k = Some i \<longleftrightarrow>
     k \<le> i \<and> i < n \<and> extensionName (ps ! i) = name \<and>
     (\<forall>j. k \<le> j \<and> j < i \<longrightarrow> extensionName (ps ! j) \<noteq> name)"
proof (induction ps n name k rule: find_prop.induct)
  case (1 ps n name k)
  show ?case
  proof (cases "k < n")
    case False
    then show ?thesis by (subst find_prop.simps) auto
  next
    case True
    note kn = this
    show ?thesis
    proof (cases "extensionName (ps ! k) = name")
      case True
      have "find_prop ps n name k = Some k"
        using kn True by (subst find_prop.simps) simp
      moreover have "(k \<le> i \<and> i < n \<and> extensionName (ps ! i) = name \<and>
          (\<forall>j. k \<le> j \<and> j < i \<longrightarrow> extensionName (ps ! j) \<noteq> name)) \<longleftrightarrow> i = k"
      proof (cases "i = k")
        case True
        with kn \<open>extensionName (ps ! k) = name\<close> show ?thesis by auto
      next
        case False
        have "\<not> (k \<le> i \<and> (\<forall>j. k \<le> j \<and> j < i \<longrightarrow> extensionName (ps ! j) \<noteq> name))"
        proof
          assume a: "k \<le> i \<and> (\<forall>j. k \<le> j \<and> j < i \<longrightarrow> extensionName (ps ! j) \<noteq> name)"
          with False have "k < i" by simp
          with a have "extensionName (ps ! k) \<noteq> name" by simp
          with \<open>extensionName (ps ! k) = name\<close> show False by simp
        qed
        with False show ?thesis by blast
      qed
      ultimately show ?thesis by auto
    next
      case False
      have eq: "find_prop ps n name k = find_prop ps n name (Suc k)"
        using kn False by (subst find_prop.simps) simp
      have "(k \<le> i \<and> i < n \<and> extensionName (ps ! i) = name \<and>
          (\<forall>j. k \<le> j \<and> j < i \<longrightarrow> extensionName (ps ! j) \<noteq> name)) \<longleftrightarrow>
         (Suc k \<le> i \<and> i < n \<and> extensionName (ps ! i) = name \<and>
          (\<forall>j. Suc k \<le> j \<and> j < i \<longrightarrow> extensionName (ps ! j) \<noteq> name))"
        using False by (metis Suc_leD Suc_leI le_neq_implies_less)
      with eq "1.IH" [OF kn False] show ?thesis by simp
    qed
  qed
qed

lemma find_prop_None_iff:
  "find_prop ps n name k = None \<longleftrightarrow> (\<forall>j. k \<le> j \<and> j < n \<longrightarrow> extensionName (ps ! j) \<noteq> name)"
proof (induction ps n name k rule: find_prop.induct)
  case (1 ps n name k)
  show ?case
  proof (cases "k < n")
    case False
    then show ?thesis by (subst find_prop.simps) auto
  next
    case True
    note kn = this
    show ?thesis
    proof (cases "extensionName (ps ! k) = name")
      case True
      have "find_prop ps n name k = Some k"
        using kn True by (subst find_prop.simps) simp
      with kn True show ?thesis by auto
    next
      case False
      have eq: "find_prop ps n name k = find_prop ps n name (Suc k)"
        using kn False by (subst find_prop.simps) simp
      have "(\<forall>j. k \<le> j \<and> j < n \<longrightarrow> extensionName (ps ! j) \<noteq> name) \<longleftrightarrow>
            (\<forall>j. Suc k \<le> j \<and> j < n \<longrightarrow> extensionName (ps ! j) \<noteq> name)"
        using False by (metis Suc_leD Suc_leI le_neq_implies_less)
      with eq "1.IH" [OF kn False] show ?thesis by simp
    qed
  qed
qed

lemma in_take_names:
  assumes "n \<le> length ps"
  shows "name \<in> set (map extensionName (take n ps)) \<longleftrightarrow> (\<exists>j<n. extensionName (ps ! j) = name)"
proof
  assume "name \<in> set (map extensionName (take n ps))"
  then obtain j where "j < length (take n ps)" "extensionName (take n ps ! j) = name"
    by (auto simp: in_set_conv_nth)
  with assms show "\<exists>j<n. extensionName (ps ! j) = name" by auto
next
  assume "\<exists>j<n. extensionName (ps ! j) = name"
  then obtain j where j: "j < n" "extensionName (ps ! j) = name" by blast
  with assms have "take n ps ! j \<in> set (take n ps)" by (intro nth_mem) simp
  with j show "name \<in> set (map extensionName (take n ps))" by force
qed

lemma first_with_name_iff:
  assumes "i \<le> length ps"
  shows "first_with_name ps i \<longleftrightarrow> (\<forall>j<i. extensionName (ps ! j) \<noteq> extensionName (ps ! i))"
  unfolding first_with_name_def using in_take_names [OF assms] by auto

lemma find_prop_None_names:
  "n \<le> length ps \<Longrightarrow>
     find_prop ps n name 0 = None \<longleftrightarrow> name \<notin> set (map extensionName (take n ps))"
  using in_take_names [of n ps name] by (simp add: find_prop_None_iff)

lemma find_prop_Some_first:
  assumes "n \<le> length ps" "i < n"
  shows "find_prop ps n name 0 = Some i \<longleftrightarrow>
       extensionName (ps ! i) = name \<and> first_with_name ps i"
proof -
  from assms have "i \<le> length ps" by simp
  from first_with_name_iff [OF this] assms show ?thesis
    by (auto simp: find_prop_Some_iff)
qed

subsection \<open>One round of the outer loop\<close>

lemma step_length: "n \<le> length ps \<Longrightarrow> n \<le> length (reconcile_step n e ps)"
  by (simp add: reconcile_step_def split: option.split)

lemma step_names:
  assumes "n \<le> length ps"
  shows "map extensionName (take n (reconcile_step n e ps)) = map extensionName (take n ps)"
proof (cases "find_prop ps n (extensionName e) 0")
  case None
  with assms show ?thesis by (simp add: reconcile_step_def)
next
  case (Some i)
  from Some assms have "i < length ps" by (simp add: find_prop_Some_iff)
  then have "(map extensionName ps)[i := extensionName (ps ! i)] = map extensionName ps"
    by (metis list_update_id nth_map)
  then have "map extensionName (ps[i := (ps ! i)\<lparr>extensionVersion := extensionVersion e\<rparr>]) =
        map extensionName ps"
    by (simp add: map_update)
  then have "map extensionName (take n (ps[i := (ps ! i)\<lparr>extensionVersion := extensionVersion e\<rparr>])) =
        map extensionName (take n ps)"
    by (simp only: take_map [symmetric])
  with Some show ?thesis by (simp add: reconcile_step_def)
qed

lemma step_drop:
  assumes "n \<le> length ps"
  shows "drop n (reconcile_step n e ps) =
       drop n ps @ (if extensionName e \<in> set (map extensionName (take n ps)) then [] else [e])"
proof (cases "find_prop ps n (extensionName e) 0")
  case None
  with assms show ?thesis
    using find_prop_None_names [OF assms, of "extensionName e"]
    by (simp add: reconcile_step_def)
next
  case (Some i)
  then have "i < n" by (simp add: find_prop_Some_iff)
  moreover from Some have "extensionName e \<in> set (map extensionName (take n ps))"
    using find_prop_None_names [OF assms, of "extensionName e"] by simp
  ultimately show ?thesis using Some by (simp add: reconcile_step_def)
qed

lemma step_nth:
  assumes "n \<le> length ps" "i < n"
  shows "reconcile_step n e ps ! i =
       (if extensionName (ps ! i) = extensionName e \<and> first_with_name ps i
        then (ps ! i)\<lparr>extensionVersion := extensionVersion e\<rparr> else ps ! i)"
proof (cases "find_prop ps n (extensionName e) 0")
  case None
  then have "find_prop ps n (extensionName e) 0 \<noteq> Some i" by simp
  then have "\<not> (extensionName (ps ! i) = extensionName e \<and> first_with_name ps i)"
    by (simp add: find_prop_Some_first [OF assms])
  with None assms show ?thesis by (auto simp: reconcile_step_def nth_append)
next
  case (Some k)
  show ?thesis
  proof (cases "k = i")
    case True
    with Some have "extensionName (ps ! i) = extensionName e \<and> first_with_name ps i"
      by (simp add: find_prop_Some_first [OF assms])
    with Some True assms show ?thesis by (simp add: reconcile_step_def)
  next
    case False
    with Some have "find_prop ps n (extensionName e) 0 \<noteq> Some i" by simp
    then have "\<not> (extensionName (ps ! i) = extensionName e \<and> first_with_name ps i)"
      by (simp add: find_prop_Some_first [OF assms])
    with Some False show ?thesis by (auto simp: reconcile_step_def)
  qed
qed

subsection \<open>The outer loop\<close>

lemma reconcile_Cons:
  "reconcile n (e # rt) ps = reconcile n rt (reconcile_step n e ps)"
  by (simp add: reconcile_step_def)

lemma reconcile_length: "n \<le> length ps \<Longrightarrow> n \<le> length (reconcile n rt ps)"
proof (induction rt arbitrary: ps)
  case Nil
  then show ?case by simp
next
  case (Cons e rt)
  from Cons.IH [OF step_length [OF Cons.prems, of e]] show ?case
    by (simp only: reconcile_Cons)
qed

lemma reconcile_names:
  "n \<le> length ps \<Longrightarrow>
     map extensionName (take n (reconcile n rt ps)) = map extensionName (take n ps)"
proof (induction rt arbitrary: ps)
  case Nil
  then show ?case by simp
next
  case (Cons e rt)
  from Cons.IH [OF step_length [OF Cons.prems, of e]] step_names [OF Cons.prems, of e]
  show ?case by (simp only: reconcile_Cons)
qed

lemma reconcile_drop:
  "n \<le> length ps \<Longrightarrow>
     drop n (reconcile n rt ps) =
       drop n ps @ filter (\<lambda>e. extensionName e \<notin> set (map extensionName (take n ps))) rt"
proof (induction rt arbitrary: ps)
  case Nil
  then show ?case by simp
next
  case (Cons e rt)
  let ?ps' = "reconcile_step n e ps"
  have "drop n (reconcile n (e # rt) ps) = drop n (reconcile n rt ?ps')"
    by (simp only: reconcile_Cons)
  also have "\<dots> = drop n ?ps' @
      filter (\<lambda>e. extensionName e \<notin> set (map extensionName (take n ?ps'))) rt"
    by (rule Cons.IH [OF step_length [OF Cons.prems]])
  also have "\<dots> = drop n ?ps' @
      filter (\<lambda>e. extensionName e \<notin> set (map extensionName (take n ps))) rt"
    by (simp only: step_names [OF Cons.prems])
  also have "\<dots> = drop n ps @
      filter (\<lambda>e. extensionName e \<notin> set (map extensionName (take n ps))) (e # rt)"
    by (simp add: step_drop [OF Cons.prems])
  finally show ?case .
qed

lemma find_app:
  "find P (xs @ ys) = (case find P xs of None \<Rightarrow> find P ys | Some x \<Rightarrow> Some x)"
  by (induction xs) simp_all

lemma last_reported_Cons:
  "last_reported name (e # rt) =
     (case last_reported name rt of
        Some e' \<Rightarrow> Some e'
      | None \<Rightarrow> if extensionName e = name then Some e else None)"
  by (simp add: last_reported_def find_app split: option.split)

lemma first_with_name_cong:
  assumes eq: "map extensionName (take n ps') = map extensionName (take n ps)"
    and i: "i < n" and n: "n \<le> length ps" "n \<le> length ps'"
  shows "first_with_name ps' i = first_with_name ps i"
proof -
  have nth: "extensionName (ps' ! j) = extensionName (ps ! j)" if "j < n" for j
  proof -
    have "map extensionName (take n ps') ! j = map extensionName (take n ps) ! j"
      by (simp add: eq)
    with that n show ?thesis by simp
  qed
  from i n have "i \<le> length ps" "i \<le> length ps'" by simp_all
  with nth i show ?thesis by (simp add: first_with_name_iff)
qed

lemma reconcile_nth:
  "n \<le> length ps \<Longrightarrow> i < n \<Longrightarrow>
     reconcile n rt ps ! i =
       (if first_with_name ps i then
          (case last_reported (extensionName (ps ! i)) rt of
             None \<Rightarrow> ps ! i
           | Some e \<Rightarrow> (ps ! i)\<lparr>extensionVersion := extensionVersion e\<rparr>)
        else ps ! i)"
proof (induction rt arbitrary: ps)
  case Nil
  then show ?case by (simp add: last_reported_def)
next
  case (Cons e rt)
  let ?ps' = "reconcile_step n e ps"
  have len: "n \<le> length ?ps'" by (rule step_length [OF Cons.prems(1)])
  have names: "map extensionName (take n ?ps') = map extensionName (take n ps)"
    by (rule step_names [OF Cons.prems(1)])
  have first: "first_with_name ?ps' i = first_with_name ps i"
    by (rule first_with_name_cong [OF names Cons.prems(2) Cons.prems(1) len])
  have nth: "?ps' ! i =
       (if extensionName (ps ! i) = extensionName e \<and> first_with_name ps i
        then (ps ! i)\<lparr>extensionVersion := extensionVersion e\<rparr> else ps ! i)"
    by (rule step_nth [OF Cons.prems])
  have name: "extensionName (?ps' ! i) = extensionName (ps ! i)"
    by (simp add: nth)
  have "reconcile n (e # rt) ps ! i = reconcile n rt ?ps' ! i"
    by (simp only: reconcile_Cons)
  also have "\<dots> =
       (if first_with_name ps i then
          (case last_reported (extensionName (ps ! i)) rt of
             None \<Rightarrow> ?ps' ! i
           | Some e' \<Rightarrow> (?ps' ! i)\<lparr>extensionVersion := extensionVersion e'\<rparr>)
        else ?ps' ! i)"
    by (simp add: Cons.IH [OF len Cons.prems(2)] first name)
  also have "\<dots> =
       (if first_with_name ps i then
          (case last_reported (extensionName (ps ! i)) (e # rt) of
             None \<Rightarrow> ps ! i
           | Some e' \<Rightarrow> (ps ! i)\<lparr>extensionVersion := extensionVersion e'\<rparr>)
        else ps ! i)"
    by (simp add: nth last_reported_Cons split: option.split)
  finally show ?case .
qed

lemma GetInstanceExtensionProperties_reconcile:
  "GetInstanceExtensionProperties this props =
     reconcile (length props)
       (rt_xrEnumerateInstanceExtensionProperties (m_get_instance_proc_addr this)) props"
  by (simp add: GetInstanceExtensionProperties_def Let_def)

text \<open>
  Claim C7. Let the caller supply \<open>candidates\<close> and the runtime report \<open>reported\<close>. In
  the reconciled list the caller's entries come first, with their names in the original
  order; they are followed by the runtime's entries whose name (compared by exact,
  case-sensitive string equality) matches no candidate, in the order the runtime reported
  them. A candidate whose name the runtime does not report keeps its version. A candidate
  whose name the runtime reports has its version overwritten with the runtime's; when the
  runtime reports the name more than once the last report stands, and when the caller
  supplied the name more than once the search stops at the first such entry, the later
  ones keeping their version.
\<close>

theorem extension_reconciliation:
  "(let reported = rt_xrEnumerateInstanceExtensionProperties (m_get_instance_proc_addr this);
        result = GetInstanceExtensionProperties this candidates;
        n = length candidates
    in map extensionName (take n result) = map extensionName candidates
       \<and> drop n result =
           filter (\<lambda>e. extensionName e \<notin> set (map extensionName candidates)) reported
       \<and> (\<forall>i<n. result ! i =
            (if first_with_name candidates i then
               (case last_reported (extensionName (candidates ! i)) reported of
                  None \<Rightarrow> candidates ! i
                | Some e \<Rightarrow> (candidates ! i)\<lparr>extensionVersion := extensionVersion e\<rparr>)
             else candidates ! i)))"
  unfolding Let_def GetInstanceExtensionProperties_reconcile
  using reconcile_names [of "length candidates" candidates]
    reconcile_drop [of "length candidates" candidates]
    reconcile_nth [of "length candidates" candidates]
  by simp

text \<open>
  Witness for C7, the specification's example: candidates A (version 1) and B (version 1),
  the runtime reporting B (version 2) and C (version 1). A is untouched, B takes the
  runtime's version, C is appended.
\<close>

theorem extension_reconciliation_witness:
  "GetInstanceExtensionProperties example_runtime_session example_candidates ! 0 =
     \<lparr>extensionName = ''A'', extensionVersion = 1\<rparr>
   \<and> GetInstanceExtensionProperties example_runtime_session example_candidates ! 1 =
     \<lparr>extensionName = ''B'', extensionVersion = 2\<rparr>
   \<and> drop 2 (GetInstanceExtensionProperties example_runtime_session example_candidates) =
     [\<lparr>extensionName = ''C'', extensionVersion = 1\<rparr>]"
proof -
  have r: "rt_xrEnumerateInstanceExtensionProperties (m_get_instance_proc_addr example_runtime_session) =
      [\<lparr>extensionName = ''B'', extensionVersion = 2\<rparr>, \<lparr>extensionName = ''C'', extensionVersion = 1\<rparr>]"
    by (simp add: example_runtime_session_def new_RuntimeInterface_def)
  have l: "length example_candidates = 2" by (simp add: example_candidates_def)
  have all2: "(\<forall>i<2. Q i) \<longleftrightarrow> Q 0 \<and> Q (Suc 0)" for Q :: "nat \<Rightarrow> bool"
    by (auto simp: less_Suc_eq numeral_2_eq_2)
  from extension_reconciliation [of example_runtime_session example_candidates]
  show ?thesis
    unfolding Let_def r l all2
    by (simp add: example_candidates_def first_with_name_def last_reported_def)
qed

section \<open>Instances and messengers: the claims\<close>

lemma CreateInstance_eq:
  "CreateInstance rt populate info instance0 this =
     (fst (rt info instance0), snd (rt info instance0),
      (if XR_SUCCEEDED (fst (rt info instance0))
       then this\<lparr>m_dispatch_table_map := (m_dispatch_table_map this)
              (snd (rt info instance0) \<mapsto>
                 snd (populate (snd (rt info instance0)) (m_get_instance_proc_addr this)))\<rparr>
       else this),
      [xrCreateInstance_called])"
  by (cases "rt info instance0") (simp add: CreateInstance_def Let_def XR_SUCCEEDED_def XR_FAILED_def)

lemma DestroyInstance_cache:
  "m_dispatch_table_map (fst (snd (DestroyInstance instance this))) =
     (if instance = XR_NULL_HANDLE then m_dispatch_table_map this
      else (m_dispatch_table_map this)(instance := None))"
  by (auto simp: DestroyInstance_def Let_def split: option.split)

lemma cache_tracks_Create:
  assumes "cache_tracks (this, live)"
    and "CreateInstance rt populate info instance0 this = (res, instance, this', made)"
  shows "cache_tracks (this', if XR_SUCCEEDED res then insert instance live else live)"
  using assms unfolding CreateInstance_eq cache_tracks_def GetDispatchTable_def
  by (auto split: if_splits)

lemma cache_tracks_Destroy:
  assumes "cache_tracks (this, live)"
    and "DestroyInstance instance this = (res, this', made)"
  shows "cache_tracks (this', live - {instance})"
proof -
  from assms(2) have "this' = fst (snd (DestroyInstance instance this))" by simp
  with assms(1) show ?thesis
    unfolding cache_tracks_def GetDispatchTable_def by (auto simp: DestroyInstance_cache)
qed

lemma cache_tracks_run: "cache_tracks st \<Longrightarrow> cache_tracks (run_calls cs st)"
proof (induction cs st rule: run_calls.induct)
  case (1 st)
  then show ?case by simp
next
  case (2 rt populate info instance0 rest this live)
  obtain res inst this' made
    where c: "CreateInstance rt populate info instance0 this = (res, inst, this', made)"
    by (cases "CreateInstance rt populate info instance0 this") auto
  from cache_tracks_Create [OF "2.prems" c]
  have "cache_tracks (this', if XR_SUCCEEDED res then insert inst live else live)" .
  from "2.IH" [OF c [symmetric] refl refl this] c show ?case by simp
next
  case (3 inst rest this live)
  obtain res this' made where d: "DestroyInstance inst this = (res, this', made)"
    by (cases "DestroyInstance inst this") auto
  from cache_tracks_Destroy [OF "3.prems" d] have "cache_tracks (this', live - {inst})" .
  from "3.IH" [OF d [symmetric] refl this] d show ?case by simp
qed

lemma DestroyInstance_twice:
  "DestroyInstance instance (fst (snd (DestroyInstance instance this))) =
     (XR_SUCCESS, fst (snd (DestroyInstance instance this)),
      if instance = XR_NULL_HANDLE then [] else [xrDestroyInstance_called instance])"
  by (auto simp: DestroyInstance_def Let_def split: option.split)

text \<open>
  The clean-up branch of \<open>CreateInstance\<close> is never taken: whatever the runtime answers
  and whatever the populate step yields, the result is the runtime's, the only call made
  is the create call, and a successful create leaves its table in the cache.
\<close>

lemma CreateInstance_never_cleans_up:
  "fst (CreateInstance rt populate info instance0 this) = fst (rt info instance0)
   \<and> snd (snd (snd (CreateInstance rt populate info instance0 this))) = [xrCreateInstance_called]"
  by (simp add: CreateInstance_eq)

text \<open>
  Claim C3, at a create call where the runtime succeeds with handle 7 and the populate
  step then reports \<open>XR_ERROR_RUNTIME_FAILURE\<close>: \<open>CreateInstance\<close> returns \<open>XR_SUCCESS\<close>
  with handle 7, the table is cached under 7, and the runtime's destroy entry point is not
  called, since the outcome of the populate step is never assigned to the result.
\<close>

theorem populate_failure_is_not_rolled_back:
  "CreateInstance (answers XR_SUCCESS 7) (populates XR_ERROR_RUNTIME_FAILURE) some_info
       XR_NULL_HANDLE fresh_session =
     (XR_SUCCESS, 7,
      fresh_session\<lparr>m_dispatch_table_map := [7 \<mapsto> [(''xrDestroyInstance'', 1)]]\<rparr>,
      [xrCreateInstance_called])"
  by (simp add: CreateInstance_def answers_def populates_def fresh_session_def
      new_RuntimeInterface_def xr_codes Let_def)

text \<open>
  Claim C4, as stated, for every handle: a runtime answers a create call with success and
  the null handle, and the caller then destroys that handle. \<open>DestroyInstance\<close> does
  nothing for the null handle, so the lookup of the null handle still yields a table
  although the handle is no longer live.
\<close>

theorem cache_consistency_counterexample:
  "\<not> (GetDispatchTable
         (fst (run_calls
            [Create (answers XR_SUCCESS XR_NULL_HANDLE) (populates XR_SUCCESS) some_info XR_NULL_HANDLE,
             Destroy XR_NULL_HANDLE] (fresh_session, {}))) XR_NULL_HANDLE \<noteq> None
       \<longleftrightarrow> XR_NULL_HANDLE \<in>
         snd (run_calls
            [Create (answers XR_SUCCESS XR_NULL_HANDLE) (populates XR_SUCCESS) some_info XR_NULL_HANDLE,
             Destroy XR_NULL_HANDLE] (fresh_session, {})))"
  by (simp add: CreateInstance_eq DestroyInstance_def answers_def populates_def fresh_session_def
      new_RuntimeInterface_def GetDispatchTable_def xr_codes XR_NULL_HANDLE_def)

text \<open>
  Claim C4, amended: starting from a session with an empty cache, after every sequence of
  \<open>CreateInstance\<close> and \<open>DestroyInstance\<close> calls the lookup of a non-null handle \<open>h\<close>
  yields a table if and only if \<open>h\<close> is live, that is, returned by a successful
  \<open>CreateInstance\<close> and not passed to \<open>DestroyInstance\<close> since. Destroying a handle a
  second time returns \<open>XR_SUCCESS\<close> and leaves the cache, and the session, as the first
  destruction left them.
\<close>

theorem cache_consistency:
  assumes "h \<noteq> XR_NULL_HANDLE"
    and "m_dispatch_table_map this = Map.empty"
  shows "(GetDispatchTable (fst (run_calls cs (this, {}))) h \<noteq> None
            \<longleftrightarrow> h \<in> snd (run_calls cs (this, {})))
    \<and> fst (DestroyInstance d (fst (snd (DestroyInstance d that)))) = XR_SUCCESS
    \<and> fst (snd (DestroyInstance d (fst (snd (DestroyInstance d that))))) =
        fst (snd (DestroyInstance d that))"
proof -
  from assms(2) have "cache_tracks (this, {})"
    by (simp add: cache_tracks_def GetDispatchTable_def)
  then have "cache_tracks (run_calls cs (this, {}))" by (rule cache_tracks_run)
  with assms(1) show ?thesis by (simp add: cache_tracks_def DestroyInstance_twice)
qed

text \<open>
  Witness for the amended C4: handles 7 and 8 are created and 7 is destroyed; then 8 has
  a table and is live.
\<close>

theorem cache_consistency_witness:
  "(8 :: 64 word) \<noteq> XR_NULL_HANDLE
   \<and> m_dispatch_table_map fresh_session = Map.empty
   \<and> GetDispatchTable
        (fst (run_calls
           [Create (answers XR_SUCCESS 7) (populates XR_SUCCESS) some_info XR_NULL_HANDLE,
            Create (answers XR_SUCCESS 8) (populates XR_SUCCESS) some_info XR_NULL_HANDLE,
            Destroy 7] (fresh_session, {}))) 8 \<noteq> None"
proof -
  have h1: "(8 :: 64 word) \<noteq> XR_NULL_HANDLE" by (simp add: XR_NULL_HANDLE_def)
  have h2: "m_dispatch_table_map fresh_session = Map.empty"
    by (simp add: fresh_session_def new_RuntimeInterface_def)
  have live: "8 \<in> snd (run_calls
           [Create (answers XR_SUCCESS 7) (populates XR_SUCCESS) some_info XR_NULL_HANDLE,
            Create (answers XR_SUCCESS 8) (populates XR_SUCCESS) some_info XR_NULL_HANDLE,
            Destroy 7] (fresh_session, {}))"
    by (simp add: CreateInstance_eq DestroyInstance_def answers_def xr_codes XR_NULL_HANDLE_def)
  from cache_consistency [OF h1 h2] live h1 h2 show ?thesis by blast
qed

text \<open>
  Claim C9, as stated, with the lookup after \<open>ForgetDebugMessenger\<close> included for every
  messenger: the null messenger handle is tracked for the live instance 9, and the null
  instance handle has no cache entry. \<open>ForgetDebugMessenger\<close> does nothing for the null
  handle, so the messenger stays in the registry and the lookup that follows still
  yields the table of instance 9.
\<close>

theorem messenger_orphan_lookup_counterexample:
  "m_dispatch_table_map
      (ForgetDebugMessenger XR_NULL_HANDLE
         (snd (TrackDebugMessenger 9 XR_NULL_HANDLE
            (fresh_session\<lparr>m_dispatch_table_map := [9 \<mapsto> []]\<rparr>))))
      XR_NULL_HANDLE = None
   \<and> GetDebugUtilsMessengerDispatchTable
        (ForgetDebugMessenger XR_NULL_HANDLE
           (snd (TrackDebugMessenger 9 XR_NULL_HANDLE
              (fresh_session\<lparr>m_dispatch_table_map := [9 \<mapsto> []]\<rparr>))))
        XR_NULL_HANDLE = Some []"
  by (simp add: GetDebugUtilsMessengerDispatchTable_def GetDispatchTable_def
      ForgetDebugMessenger_def TrackDebugMessenger_def XR_NULL_HANDLE_def)

text \<open>
  Claim C9, amended. For every messenger that is not in the registry,
  \<open>GetDebugUtilsMessengerDispatchTable\<close> resolves the owner to the null instance handle:
  its result is the lookup of \<open>XR_NULL_HANDLE\<close> in the cache, whatever the cache holds,
  and so yields no table when the null instance handle has no cache entry; there is no
  distinct error. Every non-null messenger is out of the registry after
  \<open>ForgetDebugMessenger\<close>, which changes nothing else, so the lookup that follows is
  again the lookup of the null instance handle. For the null messenger handle
  \<open>ForgetDebugMessenger\<close> leaves the session as it is.
\<close>

theorem unmapped_messenger_resolves_to_null_instance:
  "(m_messenger_to_instance_map this messenger = None \<longrightarrow>
      GetDebugUtilsMessengerDispatchTable this messenger = GetDispatchTable this XR_NULL_HANDLE
      \<and> (m_dispatch_table_map this XR_NULL_HANDLE = None \<longrightarrow>
            GetDebugUtilsMessengerDispatchTable this messenger = None))
   \<and> (messenger \<noteq> XR_NULL_HANDLE \<longrightarrow>
        m_messenger_to_instance_map (ForgetDebugMessenger messenger this) messenger = None
        \<and> m_dispatch_table_map (ForgetDebugMessenger messenger this) = m_dispatch_table_map this
        \<and> GetDebugUtilsMessengerDispatchTable (ForgetDebugMessenger messenger this) messenger =
            GetDispatchTable this XR_NULL_HANDLE
        \<and> (m_dispatch_table_map this XR_NULL_HANDLE = None \<longrightarrow>
              GetDebugUtilsMessengerDispatchTable (ForgetDebugMessenger messenger this) messenger =
                None))
   \<and> ForgetDebugMessenger XR_NULL_HANDLE this = this"
  by (simp add: GetDebugUtilsMessengerDispatchTable_def GetDispatchTable_def
      ForgetDebugMessenger_def Let_def)

text \<open>
  Witness for the amended C9. Messenger 5 is tracked for the live instance 9, whose table
  the lookup finds; once forgotten, the lookup yields nothing, the null instance handle
  having no cache entry. On a session whose cache does hold an entry for the null
  instance handle, the lookup of the untracked messenger 6 yields that entry: the owner
  is resolved to the null instance handle.
\<close>

theorem unmapped_messenger_resolves_to_null_instance_witness:
  "(5 :: 64 word) \<noteq> XR_NULL_HANDLE
   \<and> GetDebugUtilsMessengerDispatchTable
        (snd (TrackDebugMessenger 9 5 (fresh_session\<lparr>m_dispatch_table_map := [9 \<mapsto> []]\<rparr>))) 5 =
       Some []
   \<and> GetDebugUtilsMessengerDispatchTable
        (ForgetDebugMessenger 5
           (snd (TrackDebugMessenger 9 5 (fresh_session\<lparr>m_dispatch_table_map := [9 \<mapsto> []]\<rparr>)))) 5 =
       None
   \<and> m_messenger_to_instance_map
        (fresh_session\<lparr>m_dispatch_table_map := [XR_NULL_HANDLE \<mapsto> [(''xrDestroyInstance'', 1)]]\<rparr>) 6 =
       None
   \<and> GetDebugUtilsMessengerDispatchTable
        (fresh_session\<lparr>m_dispatch_table_map := [XR_NULL_HANDLE \<mapsto> [(''xrDestroyInstance'', 1)]]\<rparr>) 6 =
       Some [(''xrDestroyInstance'', 1)]"
proof -
  let ?s = "snd (TrackDebugMessenger 9 5 (fresh_session\<lparr>m_dispatch_table_map := [9 \<mapsto> []]\<rparr>))"
  let ?t = "fresh_session\<lparr>m_dispatch_table_map := [XR_NULL_HANDLE \<mapsto> [(''xrDestroyInstance'', 1)]]\<rparr>"
  have h1: "m_dispatch_table_map ?s XR_NULL_HANDLE = None"
    by (simp add: TrackDebugMessenger_def XR_NULL_HANDLE_def)
  have h2: "(5 :: 64 word) \<noteq> XR_NULL_HANDLE" by (simp add: XR_NULL_HANDLE_def)
  have before: "GetDebugUtilsMessengerDispatchTable ?s 5 = Some []"
    by (simp add: GetDebugUtilsMessengerDispatchTable_def GetDispatchTable_def
        TrackDebugMessenger_def)
  have h3: "m_messenger_to_instance_map ?t 6 = None"
    by (simp add: fresh_session_def new_RuntimeInterface_def)
  have null_entry: "GetDispatchTable ?t XR_NULL_HANDLE = Some [(''xrDestroyInstance'', 1)]"
    by (simp add: GetDispatchTable_def)
  from unmapped_messenger_resolves_to_null_instance [of ?s 5] h1 h2
  have after: "GetDebugUtilsMessengerDispatchTable (ForgetDebugMessenger 5 ?s) 5 = None"
    by blast
  from unmapped_messenger_resolves_to_null_instance [of ?t 6] h3 null_entry
  have unmapped: "GetDebugUtilsMessengerDispatchTable ?t 6 = Some [(''xrDestroyInstance'', 1)]"
    by simp
  from h2 before after h3 unmapped show ?thesis by blast
qed

text \<open>
  Claim C10. \<open>DestroyInstance\<close> on the null handle returns \<open>XR_SUCCESS\<close>, leaves the
  session (hence the cache) as it is and makes no call on the runtime. On a non-null
  handle the runtime's destroy entry point is called once, whether or not the cache held
  an entry for the handle.
\<close>

theorem DestroyInstance_null_is_noop:
  "DestroyInstance XR_NULL_HANDLE this = (XR_SUCCESS, this, [])
   \<and> (instance \<noteq> XR_NULL_HANDLE \<longrightarrow>
        fst (DestroyInstance instance this) = XR_SUCCESS
        \<and> snd (snd (DestroyInstance instance this)) = [xrDestroyInstance_called instance])"
  by (simp add: DestroyInstance_def Let_def)

text \<open>
  Witness for C10: destroying handle 7 on a session that never cached it still calls the
  runtime.
\<close>

theorem DestroyInstance_null_is_noop_witness:
  "(7 :: 64 word) \<noteq> XR_NULL_HANDLE
   \<and> m_dispatch_table_map fresh_session 7 = None
   \<and> DestroyInstance XR_NULL_HANDLE fresh_session = (XR_SUCCESS, fresh_session, [])
   \<and> snd (snd (DestroyInstance 7 fresh_session)) = [xrDestroyInstance_called 7]"
proof -
  have h: "(7 :: 64 word) \<noteq> XR_NULL_HANDLE" by (simp add: XR_NULL_HANDLE_def)
  have e: "m_dispatch_table_map fresh_session 7 = None"
    by (simp add: fresh_session_def new_RuntimeInterface_def)
  from DestroyInstance_null_is_noop [of fresh_session 7] h e show ?thesis by blast
qed

end
